theory Spec2Isabelle
  imports Complex_Main "HOL-Library.Multiset"
begin

section \<open>Infinidat storage modules: reconciliation of pools, volumes, filesystems,
  exports, export clients and hosts\<close>

text \<open>
  The six modules under \<^verbatim>\<open>storage/infinidat\<close> share one shape: \<^verbatim>\<open>main\<close> validates the
  parameters, opens a session (\<^verbatim>\<open>get_system\<close>), looks the resource up and then creates,
  updates or deletes it, ending with \<^verbatim>\<open>module.exit_json(changed=...)\<close> or
  \<^verbatim>\<open>module.fail_json(msg=...)\<close>. The embedding starts where the SDK was imported and
  \<^verbatim>\<open>get_system\<close> has returned a session; the resolution of credentials and the login are
  not part of it. The array behind the session is a value of type \<open>system\<close>, every function
  takes it and returns it updated, and every mutating call of the SDK is also appended
  to the log \<open>calls\<close>, so that "no call was issued" is a statement about the state.
\<close>

subsection \<open>Capacity values\<close>

text \<open>
  The \<^verbatim>\<open>capacity\<close> package is imported by the modules and is not part of the
  repository. A capacity is a byte count. A size parameter of a module is a string that
  the module tests for truth and hands to \<^verbatim>\<open>Capacity(...)\<close>; the embedding keeps the
  three things that can happen: the parameter is \<^verbatim>\<open>None\<close> or empty (\<open>Unset\<close>), the
  constructor raises on it (\<open>Malformed\<close>), or it parses to a byte count.
\<close>

datatype capacity_param = Unset | Malformed | Parses nat

fun truthy :: "capacity_param \<Rightarrow> bool" where
  "truthy Unset = False"
| "truthy Malformed = True"
| "truthy (Parses n) = True"

text \<open>\<open>Capacity p\<close> is \<open>None\<close> where the constructor raises.\<close>

fun Capacity :: "capacity_param \<Rightarrow> nat option" where
  "Capacity Unset = None"
| "Capacity Malformed = None"
| "Capacity (Parses n) = Some n"

text \<open>
  The two units of the package that the modules name, in bytes: \<open>KiB\<close> is the binary
  unit and \<open>TB\<close> the decimal one. Ten terabytes are not a multiple of 6 * 64 KiB under
  either reading of \<open>TB\<close> (see \<open>binary_10TB_not_aligned\<close>).
\<close>

definition KiB :: nat where
  "KiB = 1024"

definition TB :: nat where
  "TB = 1000 ^ 4"

text \<open>
  Modelled from the spec: \<^verbatim>\<open>Capacity.roundup\<close> of the \<^verbatim>\<open>capacity\<close> package, which is
  not under the source tree. The spec gives it as
  \<^verbatim>\<open>ceil(bytes / alignment_bytes) * alignment_bytes\<close>, with an alignment that must be
  positive; the quotient is taken in the rationals.
\<close>

definition roundup :: "nat \<Rightarrow> nat \<Rightarrow> nat" where
  "roundup x a = nat \<lceil>(of_nat x :: rat) / of_nat a\<rceil> * a"

subsection \<open>The array\<close>

record pool =
  physical_capacity :: nat
  virtual_capacity :: nat
  ssd_enabled :: bool

text \<open>A volume or a filesystem: the pool it lives in and its size.\<close>

record dataset =
  in_pool :: string
  dataset_size :: nat

text \<open>
  A permission entry of an export, the dictionary
  \<^verbatim>\<open>{client: ..., access: ..., no_root_squash: ...}\<close>.
\<close>

record perm =
  client :: string
  access :: string
  no_root_squash :: bool

record export =
  export_path :: string
  export_filesystem :: string
  permissions :: "perm list"

record host =
  host_name :: string
  fc_ports :: "string list"
  mapped_volumes :: "string list"

text \<open>The mutating calls of the SDK that the modules issue.\<close>

datatype api_call =
    Pools_create string nat nat
  | Update_physical_capacity string nat
  | Update_virtual_capacity string nat
  | Update_ssd_enabled string bool
  | Pool_delete string
  | Volumes_create string string
  | Volume_update_size string nat
  | Volume_delete string
  | Filesystems_create string string
  | Filesystem_update_size string nat
  | Filesystem_delete string
  | Exports_create string string
  | Update_permissions string "perm list"
  | Export_delete string
  | Hosts_create string
  | Add_fc_port string string
  | Map_volume string string
  | Host_delete string

text \<open>
  Pools, volumes and filesystems are looked up by name (\<^verbatim>\<open>system.pools.get(name=...)\<close>),
  so they are maps from names. Exports and hosts are listed (\<^verbatim>\<open>to_list()\<close>) and scanned
  by the modules, so they are lists; an export or host object is its index in the list.
\<close>

record system =
  pools :: "string \<rightharpoonup> pool"
  volumes :: "string \<rightharpoonup> dataset"
  filesystems :: "string \<rightharpoonup> dataset"
  exports :: "export list"
  hosts :: "host list"
  calls :: "api_call list"

text \<open>
  What the array does with a call is not in the repository. Three of its choices are
  visible to the modules and are parameters of the model: the capacity a pool holds after
  it was given one (the comment in \<^verbatim>\<open>update_pool\<close> says the array rounds), the
  permissions of an export created without any, and the size of a volume or filesystem
  created without one. The array of the model accepts every call.
\<close>

record array_model =
  store_capacity :: "nat \<Rightarrow> nat"
  new_export_permissions :: "perm list"
  new_dataset_size :: nat

definition log_call :: "api_call \<Rightarrow> system \<Rightarrow> system" where
  "log_call c s = s\<lparr>calls := calls s @ [c]\<rparr>"

definition pools_create :: "array_model \<Rightarrow> string \<Rightarrow> nat \<Rightarrow> nat \<Rightarrow> system \<Rightarrow> system" where
  "pools_create A n pc vc s =
     log_call (Pools_create n pc vc)
       (s\<lparr>pools := (pools s)(n \<mapsto>
            \<lparr>physical_capacity = store_capacity A pc,
             virtual_capacity = store_capacity A vc,
             ssd_enabled = True\<rparr>)\<rparr>)"

definition update_physical_capacity :: "array_model \<Rightarrow> string \<Rightarrow> nat \<Rightarrow> system \<Rightarrow> system" where
  "update_physical_capacity A n c s =
     log_call (Update_physical_capacity n c)
       (s\<lparr>pools := (pools s)(n := map_option (\<lambda>pl. pl\<lparr>physical_capacity := store_capacity A c\<rparr>) (pools s n))\<rparr>)"

definition update_virtual_capacity :: "array_model \<Rightarrow> string \<Rightarrow> nat \<Rightarrow> system \<Rightarrow> system" where
  "update_virtual_capacity A n c s =
     log_call (Update_virtual_capacity n c)
       (s\<lparr>pools := (pools s)(n := map_option (\<lambda>pl. pl\<lparr>virtual_capacity := store_capacity A c\<rparr>) (pools s n))\<rparr>)"

definition update_ssd_enabled :: "string \<Rightarrow> bool \<Rightarrow> system \<Rightarrow> system" where
  "update_ssd_enabled n b s =
     log_call (Update_ssd_enabled n b)
       (s\<lparr>pools := (pools s)(n := map_option (\<lambda>pl. pl\<lparr>ssd_enabled := b\<rparr>) (pools s n))\<rparr>)"

definition pool_delete :: "string \<Rightarrow> system \<Rightarrow> system" where
  "pool_delete n s = log_call (Pool_delete n) (s\<lparr>pools := (pools s)(n := None)\<rparr>)"

subsection \<open>Results of a module run\<close>

datatype desired = Present | Absent

text \<open>The messages of \<^verbatim>\<open>fail_json\<close>, one constructor for each.\<close>

datatype failure =
    Size_invalid
  | Vsize_invalid
  | Pool_not_found string
  | Filesystem_not_found string
  | Export_not_found string
  | Volume_not_found string

text \<open>
  A run ends in \<^verbatim>\<open>exit_json(changed=b)\<close>, in \<^verbatim>\<open>fail_json(msg=...)\<close>, in an exception
  that nothing catches (\<^verbatim>\<open>api_wrapper\<close> re-raises all but the two API exceptions), or by
  \<^verbatim>\<open>main\<close> returning without either.
\<close>

datatype outcome = Exit_json bool | Fail_json failure | Uncaught | No_exit

subsection \<open>\<^verbatim>\<open>infini_pool\<close>\<close>

text \<open>
  Every module but \<^verbatim>\<open>infini_export_client\<close> takes \<^verbatim>\<open>name\<close> and \<^verbatim>\<open>state\<close>; pools,
  volumes and filesystems also take \<^verbatim>\<open>size\<close>. The parameter records extend one another
  accordingly.
\<close>

record module_params =
  name :: string
  state :: desired

record sized_params = module_params +
  size :: capacity_param

record pool_params = sized_params +
  vsize :: capacity_param
  ssd_cache :: bool

definition get_pool :: "pool_params \<Rightarrow> system \<Rightarrow> string option" where
  "get_pool p s = (case pools s (name p) of None \<Rightarrow> None | Some _ \<Rightarrow> Some (name p))"

definition create_pool :: "array_model \<Rightarrow> pool_params \<Rightarrow> system \<Rightarrow> outcome \<times> system" where
  "create_pool A p s =
     (let args =
        (if \<not> truthy (size p) \<and> \<not> truthy (vsize p) then Some (1 * TB, 1 * TB)
         else if truthy (size p) \<and> \<not> truthy (vsize p) then
           (case Capacity (size p) of None \<Rightarrow> None | Some c \<Rightarrow> Some (c, c))
         else if \<not> truthy (size p) \<and> truthy (vsize p) then
           (case Capacity (vsize p) of None \<Rightarrow> None | Some v \<Rightarrow> Some (1 * TB, v))
         else
           (case Capacity (size p) of None \<Rightarrow> None
            | Some c \<Rightarrow> (case Capacity (vsize p) of None \<Rightarrow> None | Some v \<Rightarrow> Some (c, v))))
      in case args of
           None \<Rightarrow> (Uncaught, s)
         | Some (pc, vc) \<Rightarrow>
             (let s1 = pools_create A (name p) pc vc s;
                  s2 = (if \<not> ssd_cache p then update_ssd_enabled (name p) (ssd_cache p) s1 else s1)
              in (Exit_json True, s2)))"

text \<open>
  \<^verbatim>\<open>update_pool\<close> compares and updates three fields in turn. Each step takes the flag
  \<open>changed\<close> and the array and gives them back, or \<open>None\<close> with the array as it is when an
  exception escapes (a size on which \<^verbatim>\<open>Capacity\<close> raises, a pool that is gone).
\<close>

definition update_pool_physical ::
  "array_model \<Rightarrow> pool_params \<Rightarrow> string \<Rightarrow> bool \<times> system \<Rightarrow> bool option \<times> system" where
  "update_pool_physical A p h = (\<lambda>(changed, s).
     if truthy (size p) then
       (case Capacity (size p) of
          None \<Rightarrow> (None, s)
        | Some c \<Rightarrow>
            (let physical = roundup c (6 * 64 * KiB)
             in case pools s h of
                  None \<Rightarrow> (None, s)
                | Some pl \<Rightarrow>
                    if physical_capacity pl \<noteq> physical
                    then (Some True, update_physical_capacity A h physical s)
                    else (Some changed, s)))
     else (Some changed, s))"

definition update_pool_virtual ::
  "array_model \<Rightarrow> pool_params \<Rightarrow> string \<Rightarrow> bool \<times> system \<Rightarrow> bool option \<times> system" where
  "update_pool_virtual A p h = (\<lambda>(changed, s).
     if truthy (vsize p) then
       (case Capacity (vsize p) of
          None \<Rightarrow> (None, s)
        | Some v \<Rightarrow>
            (let virtual = roundup v (6 * 64 * KiB)
             in case pools s h of
                  None \<Rightarrow> (None, s)
                | Some pl \<Rightarrow>
                    if virtual_capacity pl \<noteq> virtual
                    then (Some True, update_virtual_capacity A h virtual s)
                    else (Some changed, s)))
     else (Some changed, s))"

definition update_pool_ssd ::
  "pool_params \<Rightarrow> string \<Rightarrow> bool \<times> system \<Rightarrow> bool option \<times> system" where
  "update_pool_ssd p h = (\<lambda>(changed, s).
     case pools s h of
       None \<Rightarrow> (None, s)
     | Some pl \<Rightarrow>
         if ssd_enabled pl \<noteq> ssd_cache p
         then (Some True, update_ssd_enabled h (ssd_cache p) s)
         else (Some changed, s))"

definition update_pool :: "array_model \<Rightarrow> pool_params \<Rightarrow> string \<Rightarrow> system \<Rightarrow> outcome \<times> system" where
  "update_pool A p h s =
     (case update_pool_physical A p h (False, s) of
        (None, s1) \<Rightarrow> (Uncaught, s1)
      | (Some c1, s1) \<Rightarrow>
          (case update_pool_virtual A p h (c1, s1) of
             (None, s2) \<Rightarrow> (Uncaught, s2)
           | (Some c2, s2) \<Rightarrow>
               (case update_pool_ssd p h (c2, s2) of
                  (None, s3) \<Rightarrow> (Uncaught, s3)
                | (Some changed, s3) \<Rightarrow> (Exit_json changed, s3))))"

definition delete_pool :: "string \<Rightarrow> system \<Rightarrow> outcome \<times> system" where
  "delete_pool h s = (Exit_json True, pool_delete h s)"

definition pool_main :: "array_model \<Rightarrow> pool_params \<Rightarrow> system \<Rightarrow> outcome \<times> system" where
  "pool_main A p s =
     (if truthy (size p) \<and> Capacity (size p) = None then (Fail_json Size_invalid, s)
      else if truthy (vsize p) \<and> Capacity (vsize p) = None then (Fail_json Vsize_invalid, s)
      else
        (let pool = get_pool p s
         in case (state p, pool) of
              (Present, None) \<Rightarrow> create_pool A p s
            | (Present, Some h) \<Rightarrow> update_pool A p h s
            | (Absent, Some h) \<Rightarrow> delete_pool h s
            | (Absent, None) \<Rightarrow> (Exit_json False, s)))"

subsection \<open>\<^verbatim>\<open>infini_vol\<close> and \<^verbatim>\<open>infini_fs\<close>\<close>

definition volumes_create :: "array_model \<Rightarrow> string \<Rightarrow> string \<Rightarrow> system \<Rightarrow> system" where
  "volumes_create A n pl s =
     log_call (Volumes_create n pl)
       (s\<lparr>volumes := (volumes s)(n \<mapsto> \<lparr>in_pool = pl, dataset_size = new_dataset_size A\<rparr>)\<rparr>)"

definition volume_update_size :: "string \<Rightarrow> nat \<Rightarrow> system \<Rightarrow> system" where
  "volume_update_size n c s =
     log_call (Volume_update_size n c)
       (s\<lparr>volumes := (volumes s)(n := map_option (\<lambda>v. v\<lparr>dataset_size := c\<rparr>) (volumes s n))\<rparr>)"

definition volume_delete :: "string \<Rightarrow> system \<Rightarrow> system" where
  "volume_delete n s = log_call (Volume_delete n) (s\<lparr>volumes := (volumes s)(n := None)\<rparr>)"

definition filesystems_create :: "array_model \<Rightarrow> string \<Rightarrow> string \<Rightarrow> system \<Rightarrow> system" where
  "filesystems_create A n pl s =
     log_call (Filesystems_create n pl)
       (s\<lparr>filesystems := (filesystems s)(n \<mapsto> \<lparr>in_pool = pl, dataset_size = new_dataset_size A\<rparr>)\<rparr>)"

definition filesystem_update_size :: "string \<Rightarrow> nat \<Rightarrow> system \<Rightarrow> system" where
  "filesystem_update_size n c s =
     log_call (Filesystem_update_size n c)
       (s\<lparr>filesystems := (filesystems s)(n := map_option (\<lambda>v. v\<lparr>dataset_size := c\<rparr>) (filesystems s n))\<rparr>)"

definition filesystem_delete :: "string \<Rightarrow> system \<Rightarrow> system" where
  "filesystem_delete n s = log_call (Filesystem_delete n) (s\<lparr>filesystems := (filesystems s)(n := None)\<rparr>)"

record dataset_params = sized_params +
  pool :: string

text \<open>\<^verbatim>\<open>get_pool\<close> of \<^verbatim>\<open>infini_vol\<close> and \<^verbatim>\<open>infini_fs\<close>: the pool named by the parameter \<^verbatim>\<open>pool\<close>.\<close>

definition vol_get_pool :: "dataset_params \<Rightarrow> system \<Rightarrow> string option" where
  "vol_get_pool p s = (case pools s (pool p) of None \<Rightarrow> None | Some _ \<Rightarrow> Some (pool p))"

definition get_volume :: "dataset_params \<Rightarrow> system \<Rightarrow> string option" where
  "get_volume p s = (case volumes s (name p) of None \<Rightarrow> None | Some _ \<Rightarrow> Some (name p))"

text \<open>
  \<^verbatim>\<open>create_volume\<close> looks the pool up again. What the SDK does when it is handed
  \<^verbatim>\<open>pool=None\<close> is not in the repository; \<^verbatim>\<open>main\<close> never gets there, and the model gives
  \<open>Uncaught\<close>.
\<close>

definition create_volume :: "array_model \<Rightarrow> dataset_params \<Rightarrow> system \<Rightarrow> outcome \<times> system" where
  "create_volume A p s =
     (case vol_get_pool p s of
        None \<Rightarrow> (Uncaught, s)
      | Some pl \<Rightarrow>
          (let s1 = volumes_create A (name p) pl s
           in if truthy (size p) then
                (case Capacity (size p) of
                   None \<Rightarrow> (Uncaught, s1)
                 | Some c \<Rightarrow> (Exit_json True, volume_update_size (name p) (roundup c (64 * KiB)) s1))
              else (Exit_json True, s1)))"

definition update_volume :: "dataset_params \<Rightarrow> string \<Rightarrow> system \<Rightarrow> outcome \<times> system" where
  "update_volume p h s =
     (if truthy (size p) then
        (case Capacity (size p) of
           None \<Rightarrow> (Uncaught, s)
         | Some c \<Rightarrow>
             (let sz = roundup c (64 * KiB)
              in case volumes s h of
                   None \<Rightarrow> (Uncaught, s)
                 | Some v \<Rightarrow>
                     if dataset_size v \<noteq> sz
                     then (Exit_json True, volume_update_size h sz s)
                     else (Exit_json False, s)))
      else (Exit_json False, s))"

definition delete_volume :: "string \<Rightarrow> system \<Rightarrow> outcome \<times> system" where
  "delete_volume h s = (Exit_json True, volume_delete h s)"

definition vol_main :: "array_model \<Rightarrow> dataset_params \<Rightarrow> system \<Rightarrow> outcome \<times> system" where
  "vol_main A p s =
     (if truthy (size p) \<and> Capacity (size p) = None then (Fail_json Size_invalid, s)
      else
        (let pl = vol_get_pool p s;
             vol = get_volume p s
         in if pl = None then (Fail_json (Pool_not_found (pool p)), s)
            else
              (case (state p, vol) of
                 (Present, None) \<Rightarrow> create_volume A p s
               | (Present, Some h) \<Rightarrow> update_volume p h s
               | (Absent, Some h) \<Rightarrow> delete_volume h s
               | (Absent, None) \<Rightarrow> (Exit_json False, s))))"

definition get_filesystem :: "dataset_params \<Rightarrow> system \<Rightarrow> string option" where
  "get_filesystem p s = (case filesystems s (name p) of None \<Rightarrow> None | Some _ \<Rightarrow> Some (name p))"

definition create_filesystem :: "array_model \<Rightarrow> dataset_params \<Rightarrow> system \<Rightarrow> outcome \<times> system" where
  "create_filesystem A p s =
     (case vol_get_pool p s of
        None \<Rightarrow> (Uncaught, s)
      | Some pl \<Rightarrow>
          (let s1 = filesystems_create A (name p) pl s
           in if truthy (size p) then
                (case Capacity (size p) of
                   None \<Rightarrow> (Uncaught, s1)
                 | Some c \<Rightarrow> (Exit_json True, filesystem_update_size (name p) (roundup c (64 * KiB)) s1))
              else (Exit_json True, s1)))"

definition update_filesystem :: "dataset_params \<Rightarrow> string \<Rightarrow> system \<Rightarrow> outcome \<times> system" where
  "update_filesystem p h s =
     (if truthy (size p) then
        (case Capacity (size p) of
           None \<Rightarrow> (Uncaught, s)
         | Some c \<Rightarrow>
             (let sz = roundup c (64 * KiB)
              in case filesystems s h of
                   None \<Rightarrow> (Uncaught, s)
                 | Some v \<Rightarrow>
                     if dataset_size v \<noteq> sz
                     then (Exit_json True, filesystem_update_size h sz s)
                     else (Exit_json False, s)))
      else (Exit_json False, s))"

definition delete_filesystem :: "string \<Rightarrow> system \<Rightarrow> outcome \<times> system" where
  "delete_filesystem h s = (Exit_json True, filesystem_delete h s)"

definition fs_main :: "array_model \<Rightarrow> dataset_params \<Rightarrow> system \<Rightarrow> outcome \<times> system" where
  "fs_main A p s =
     (if truthy (size p) \<and> Capacity (size p) = None then (Fail_json Size_invalid, s)
      else
        (let pl = vol_get_pool p s;
             fs = get_filesystem p s
         in if pl = None then (Fail_json (Pool_not_found (pool p)), s)
            else
              (case (state p, fs) of
                 (Present, None) \<Rightarrow> create_filesystem A p s
               | (Present, Some h) \<Rightarrow> update_filesystem p h s
               | (Absent, Some h) \<Rightarrow> delete_filesystem h s
               | (Absent, None) \<Rightarrow> (Exit_json False, s))))"

subsection \<open>\<^verbatim>\<open>infini_export\<close>\<close>

text \<open>
  \<^verbatim>\<open>transform(d)\<close> is \<^verbatim>\<open>frozenset(d.items())\<close>: the set of the key-value pairs of a
  permission entry. The values are strings and booleans.
\<close>

datatype pyval = Str string | Bool bool

definition items :: "perm \<Rightarrow> (string \<times> pyval) list" where
  "items d =
     [(''client'', Str (client d)),
      (''access'', Str (access d)),
      (''no_root_squash'', Bool (no_root_squash d))]"

definition transform :: "perm \<Rightarrow> (string \<times> pyval) set" where
  "transform d = set (items d)"

text \<open>
  The comparison of \<^verbatim>\<open>update_export\<close>:
  \<^verbatim>\<open>set(map(transform, current)) != set(map(transform, client_list))\<close>.
\<close>

definition permissions_differ :: "perm list \<Rightarrow> perm list \<Rightarrow> bool" where
  "permissions_differ current cl = (set (map transform current) \<noteq> set (map transform cl))"

text \<open>A new export goes to the end of the list; the call returns its index.\<close>

definition exports_create :: "array_model \<Rightarrow> string \<Rightarrow> string \<Rightarrow> system \<Rightarrow> nat \<times> system" where
  "exports_create A path fs s =
     (length (exports s),
      log_call (Exports_create path fs)
        (s\<lparr>exports := exports s @
             [\<lparr>export_path = path, export_filesystem = fs,
               permissions = new_export_permissions A\<rparr>]\<rparr>))"

definition update_permissions :: "nat \<Rightarrow> perm list \<Rightarrow> system \<Rightarrow> system" where
  "update_permissions i cl s =
     log_call (Update_permissions (export_path (exports s ! i)) cl)
       (s\<lparr>exports := (exports s)[i := (exports s ! i)\<lparr>permissions := cl\<rparr>]\<rparr>)"

definition export_delete :: "nat \<Rightarrow> system \<Rightarrow> system" where
  "export_delete i s =
     log_call (Export_delete (export_path (exports s ! i)))
       (s\<lparr>exports := take i (exports s) @ drop (Suc i) (exports s)\<rparr>)"

record export_params = module_params +
  filesystem :: string
  client_list :: "perm list option"

text \<open>\<^verbatim>\<open>if client_list:\<close> holds for a list that is given and not empty.\<close>

fun truthy_list :: "'a list option \<Rightarrow> bool" where
  "truthy_list None = False"
| "truthy_list (Some xs) = (xs \<noteq> [])"

definition export_get_filesystem :: "export_params \<Rightarrow> system \<Rightarrow> string option" where
  "export_get_filesystem p s =
     (case filesystems s (filesystem p) of None \<Rightarrow> None | Some _ \<Rightarrow> Some (filesystem p))"

text \<open>
  \<^verbatim>\<open>get_export\<close> walks \<^verbatim>\<open>system.exports.to_list()\<close> and stops at the first export whose
  path is the parameter \<^verbatim>\<open>name\<close>; \<open>i\<close> counts the exports already passed.
\<close>

fun find_export :: "string \<Rightarrow> export list \<Rightarrow> nat \<Rightarrow> nat option" where
  "find_export path [] i = None"
| "find_export path (e # es) i =
     (if export_path e = path then Some i else find_export path es (Suc i))"

definition get_export :: "export_params \<Rightarrow> system \<Rightarrow> nat option" where
  "get_export p s = find_export (name p) (exports s) 0"

definition update_export ::
  "array_model \<Rightarrow> export_params \<Rightarrow> nat option \<Rightarrow> string \<Rightarrow> system \<Rightarrow> outcome \<times> system" where
  "update_export A p export fs s =
     (case export of
        None \<Rightarrow>
          (let (i, s1) = exports_create A (name p) fs s
           in case client_list p of
                None \<Rightarrow> (Exit_json True, s1)
              | Some cl \<Rightarrow>
                  if truthy_list (client_list p)
                  then (Exit_json True, update_permissions i cl s1)
                  else (Exit_json True, s1))
      | Some i \<Rightarrow>
          (case client_list p of
             None \<Rightarrow> (Exit_json False, s)
           | Some cl \<Rightarrow>
               if truthy_list (client_list p) then
                 (if i < length (exports s) then
                    (if permissions_differ (permissions (exports s ! i)) cl
                     then (Exit_json True, update_permissions i cl s)
                     else (Exit_json False, s))
                  else (Uncaught, s))
               else (Exit_json False, s)))"

definition delete_export :: "nat \<Rightarrow> system \<Rightarrow> outcome \<times> system" where
  "delete_export i s = (Exit_json True, export_delete i s)"

definition export_main :: "array_model \<Rightarrow> export_params \<Rightarrow> system \<Rightarrow> outcome \<times> system" where
  "export_main A p s =
     (let fs = export_get_filesystem p s;
          export = get_export p s
      in case fs of
           None \<Rightarrow> (Fail_json (Filesystem_not_found (filesystem p)), s)
         | Some f \<Rightarrow>
             (case (state p, export) of
                (Present, e) \<Rightarrow> update_export A p e f s
              | (Absent, Some i) \<Rightarrow> delete_export i s
              | (Absent, None) \<Rightarrow> (Exit_json False, s)))"

subsection \<open>\<^verbatim>\<open>infini_export_client\<close>\<close>

record client_params =
  client_param :: string
  access_mode :: string
  no_root_squash_param :: bool
  state_param :: desired
  export_param :: string

text \<open>
  \<^verbatim>\<open>system.exports.get(export_path=...)\<close> gives the one export with that path and raises
  when there is none or more than one; \<^verbatim>\<open>get_export\<close> turns the exception into
  \<^verbatim>\<open>fail_json\<close>.
\<close>

definition exports_get :: "string \<Rightarrow> export list \<Rightarrow> nat option" where
  "exports_get path es =
     (case filter (\<lambda>i. export_path (es ! i) = path) [0..<length es] of
        [i] \<Rightarrow> Some i
      | _ \<Rightarrow> None)"

text \<open>
  The first loop of \<^verbatim>\<open>update_client\<close>. It passes over the list once, writes the wanted
  fields into every entry of the client, and carries the two flags \<^verbatim>\<open>changed\<close> and
  \<^verbatim>\<open>client_not_in_list\<close>.
\<close>

fun update_items ::
  "string \<Rightarrow> string \<Rightarrow> bool \<Rightarrow> perm list \<Rightarrow> bool \<times> bool \<Rightarrow> perm list \<times> bool \<times> bool" where
  "update_items c am nrs [] (changed, client_not_in_list) = ([], changed, client_not_in_list)"
| "update_items c am nrs (item # rest) (changed, client_not_in_list) =
     (if client item = c then
        (let (item1, changed1) =
               (if access item \<noteq> am then (item\<lparr>access := am\<rparr>, True) else (item, changed));
             (item2, changed2) =
               (if no_root_squash item1 \<noteq> nrs
                then (item1\<lparr>no_root_squash := nrs\<rparr>, True) else (item1, changed1));
             (rest', flags) = update_items c am nrs rest (changed2, False)
         in (item2 # rest', flags))
      else
        (let (rest', flags) = update_items c am nrs rest (changed, client_not_in_list)
         in (item # rest', flags)))"

definition update_client :: "client_params \<Rightarrow> nat \<Rightarrow> system \<Rightarrow> outcome \<times> system" where
  "update_client p i s =
     (if i < length (exports s) then
        (let cl = permissions (exports s ! i);
             (cl1, changed1, client_not_in_list) =
               update_items (client_param p) (access_mode p) (no_root_squash_param p) cl (False, True);
             (cl2, changed2) =
               (if client_not_in_list
                then (cl1 @ [\<lparr>client = client_param p, access = access_mode p,
                               no_root_squash = no_root_squash_param p\<rparr>], True)
                else (cl1, changed1))
         in if changed2 then (Exit_json True, update_permissions i cl2 s)
            else (Exit_json False, s))
      else (Uncaught, s))"

text \<open>
  The loop of \<^verbatim>\<open>delete_client\<close> deletes from the list it is iterating over. The iterator
  of a Python list is a position \<open>i\<close> in the list as it is now: each round reads
  \<open>cl ! i\<close> and moves to \<open>i + 1\<close>, and \<^verbatim>\<open>enumerate\<close> counts the rounds, so \<^verbatim>\<open>index\<close> is
  that same \<open>i\<close>. The loop ends when \<open>i\<close> reaches the length of the list.
\<close>

definition del_index :: "'a list \<Rightarrow> nat \<Rightarrow> 'a list" where
  "del_index xs i = take i xs @ drop (Suc i) xs"

function delete_items :: "string \<Rightarrow> nat \<Rightarrow> perm list \<Rightarrow> bool \<Rightarrow> perm list \<times> bool" where
  "delete_items c i cl changed =
     (if i < length cl then
        (if client (cl ! i) = c
         then delete_items c (Suc i) (del_index cl i) True
         else delete_items c (Suc i) cl changed)
      else (cl, changed))"
  by pat_completeness auto
termination
  by (relation "measure (\<lambda>(c, i, cl, changed). length cl - i)") (auto simp: del_index_def)

definition delete_client :: "client_params \<Rightarrow> nat \<Rightarrow> system \<Rightarrow> outcome \<times> system" where
  "delete_client p i s =
     (if i < length (exports s) then
        (let (cl, changed) = delete_items (client_param p) 0 (permissions (exports s ! i)) False
         in if changed then (Exit_json True, update_permissions i cl s)
            else (Exit_json False, s))
      else (Uncaught, s))"

definition client_main :: "client_params \<Rightarrow> system \<Rightarrow> outcome \<times> system" where
  "client_main p s =
     (case exports_get (export_param p) (exports s) of
        None \<Rightarrow> (Fail_json (Export_not_found (export_param p)), s)
      | Some i \<Rightarrow>
          if state_param p = Present then update_client p i s else delete_client p i s)"

subsection \<open>\<^verbatim>\<open>infini_host\<close>\<close>

definition hosts_create :: "string \<Rightarrow> system \<Rightarrow> nat \<times> system" where
  "hosts_create n s =
     (length (hosts s),
      log_call (Hosts_create n)
        (s\<lparr>hosts := hosts s @ [\<lparr>host_name = n, fc_ports = [], mapped_volumes = []\<rparr>]\<rparr>))"

definition add_fc_port :: "nat \<Rightarrow> string \<Rightarrow> system \<Rightarrow> system" where
  "add_fc_port i w s =
     log_call (Add_fc_port (host_name (hosts s ! i)) w)
       (s\<lparr>hosts := (hosts s)[i := (hosts s ! i)\<lparr>fc_ports := fc_ports (hosts s ! i) @ [w]\<rparr>]\<rparr>)"

definition map_volume :: "nat \<Rightarrow> string \<Rightarrow> system \<Rightarrow> system" where
  "map_volume i v s =
     log_call (Map_volume (host_name (hosts s ! i)) v)
       (s\<lparr>hosts := (hosts s)[i := (hosts s ! i)\<lparr>mapped_volumes := mapped_volumes (hosts s ! i) @ [v]\<rparr>]\<rparr>)"

definition host_delete :: "nat \<Rightarrow> system \<Rightarrow> system" where
  "host_delete i s =
     log_call (Host_delete (host_name (hosts s ! i)))
       (s\<lparr>hosts := take i (hosts s) @ drop (Suc i) (hosts s)\<rparr>)"

record host_params = module_params +
  wwns :: "string list option"
  volume :: "string option"

text \<open>\<^verbatim>\<open>if module.params['volume']:\<close> holds for a name that is given and not empty.\<close>

fun truthy_str :: "string option \<Rightarrow> bool" where
  "truthy_str None = False"
| "truthy_str (Some v) = (v \<noteq> [])"

fun find_host :: "string \<Rightarrow> host list \<Rightarrow> nat \<Rightarrow> nat option" where
  "find_host n [] i = None"
| "find_host n (h # hs) i = (if host_name h = n then Some i else find_host n hs (Suc i))"

definition get_host :: "host_params \<Rightarrow> system \<Rightarrow> nat option" where
  "get_host p s = find_host (name p) (hosts s) 0"

fun add_fc_ports :: "nat \<Rightarrow> string list \<Rightarrow> system \<Rightarrow> system" where
  "add_fc_ports i [] s = s"
| "add_fc_ports i (w # ws) s = add_fc_ports i ws (add_fc_port i w s)"

text \<open>
  \<^verbatim>\<open>create_host\<close> looks the volume up with \<^verbatim>\<open>system.volumes.get\<close> outside any
  \<^verbatim>\<open>try\<close>: a volume that is missing there is an exception that nothing catches.
\<close>

definition create_host :: "host_params \<Rightarrow> system \<Rightarrow> outcome \<times> system" where
  "create_host p s =
     (let (h, s1) = hosts_create (name p) s;
          s2 = (case wwns p of
                  None \<Rightarrow> s1
                | Some ws \<Rightarrow> if truthy_list (wwns p) then add_fc_ports h ws s1 else s1)
      in case volume p of
           None \<Rightarrow> (Exit_json True, s2)
         | Some v \<Rightarrow>
             if truthy_str (volume p) then
               (case volumes s2 v of
                  None \<Rightarrow> (Uncaught, s2)
                | Some _ \<Rightarrow> (Exit_json True, map_volume h v s2))
             else (Exit_json True, s2))"

definition update_host :: "host_params \<Rightarrow> nat \<Rightarrow> system \<Rightarrow> outcome \<times> system" where
  "update_host p h s = (Exit_json False, s)"

definition delete_host :: "nat \<Rightarrow> system \<Rightarrow> outcome \<times> system" where
  "delete_host h s = (Exit_json True, host_delete h s)"

definition host_main :: "host_params \<Rightarrow> system \<Rightarrow> outcome \<times> system" where
  "host_main p s =
     (let host = get_host p s;
          missing = (case volume p of
                       None \<Rightarrow> None
                     | Some v \<Rightarrow>
                         if truthy_str (volume p) \<and> volumes s v = None then Some v else None)
      in case missing of
           Some v \<Rightarrow> (Fail_json (Volume_not_found v), s)
         | None \<Rightarrow>
             (case (host, state p) of
                (Some h, Present) \<Rightarrow> update_host p h s
              | (Some h, Absent) \<Rightarrow> delete_host h s
              | (None, Absent) \<Rightarrow> (Exit_json False, s)
              | (None, Present) \<Rightarrow> create_host p s))"

subsection \<open>Arrays and invocations used as examples\<close>

text \<open>
  An array with nothing on it; an array model that holds every capacity as it was given
  and gives a new export no permissions; and one that rounds pool capacities up to a
  multiple of 6 * 64 KiB, as the comment in \<^verbatim>\<open>update_pool\<close> says the Infinibox does, and
  gives a new export the entry that the documentation of \<^verbatim>\<open>infini_export\<close> names as the
  default of \<^verbatim>\<open>client_list\<close>.
\<close>

definition empty_system :: system where
  "empty_system = \<lparr>pools = Map.empty, volumes = Map.empty, filesystems = Map.empty,
                    exports = [], hosts = [], calls = []\<rparr>"

definition stores_as_given :: array_model where
  "stores_as_given = \<lparr>store_capacity = (\<lambda>c. c), new_export_permissions = [], new_dataset_size = 0\<rparr>"

definition array_as_documented :: array_model where
  "array_as_documented = \<lparr>store_capacity = (\<lambda>c. roundup c (6 * 64 * KiB)),
                    new_export_permissions = [\<lparr>client = ''*'', access = ''RW'', no_root_squash = True\<rparr>],
                    new_dataset_size = 0\<rparr>"

definition system_with_pool_10TB :: system where
  "system_with_pool_10TB =
     empty_system\<lparr>pools := [''foo'' \<mapsto>
       \<lparr>physical_capacity = 10 * TB, virtual_capacity = 10 * TB, ssd_enabled = True\<rparr>]\<rparr>"

definition pool_vsize_300TB :: pool_params where
  "pool_vsize_300TB = \<lparr>name = ''foo'', state = Present, size = Unset, vsize = Parses (300 * TB), ssd_cache = True\<rparr>"

definition pool_10TB :: pool_params where
  "pool_10TB = \<lparr>name = ''foo'', state = Present, size = Parses (10 * TB), vsize = Unset, ssd_cache = True\<rparr>"

text \<open>
  An array with one pool and one filesystem, and invocations for the resources that
  are not on it.
\<close>

definition system_with_pool_and_filesystem :: system where
  "system_with_pool_and_filesystem =
     empty_system\<lparr>pools := [''bar'' \<mapsto>
         \<lparr>physical_capacity = TB, virtual_capacity = TB, ssd_enabled = True\<rparr>],
       filesystems := [''fs1'' \<mapsto> \<lparr>in_pool = ''bar'', dataset_size = 1024 * KiB\<rparr>]\<rparr>"

definition absent_pool :: pool_params where
  "absent_pool = \<lparr>name = ''foo'', state = Absent, size = Unset, vsize = Unset, ssd_cache = True\<rparr>"

definition absent_dataset :: dataset_params where
  "absent_dataset = \<lparr>name = ''foo'', state = Absent, size = Unset, pool = ''bar''\<rparr>"

definition absent_export :: export_params where
  "absent_export = \<lparr>name = ''/data01'', state = Absent, filesystem = ''fs1'', client_list = None\<rparr>"

definition absent_host :: host_params where
  "absent_host = \<lparr>name = ''foo.example.com'', state = Absent, wwns = None, volume = None\<rparr>"

definition dataset_in_missing_pool :: "desired \<Rightarrow> dataset_params" where
  "dataset_in_missing_pool st = \<lparr>name = ''foo'', state = st, size = Parses TB, pool = ''nopool''\<rparr>"

definition dataset_malformed_size :: "desired \<Rightarrow> dataset_params" where
  "dataset_malformed_size st = \<lparr>name = ''foo'', state = st, size = Malformed, pool = ''nopool''\<rparr>"

definition host_with_missing_volume :: "desired \<Rightarrow> host_params" where
  "host_with_missing_volume st =
     \<lparr>name = ''foo.example.com'', state = st, wwns = None, volume = Some ''novol''\<rparr>"

text \<open>
  Permission entries, arrays with one export, and invocations of \<^verbatim>\<open>infini_export\<close> and
  \<^verbatim>\<open>infini_export_client\<close>. The invocation \<open>client_1_read_only\<close> leaves
  \<^verbatim>\<open>no_root_squash\<close> at its default, which is \<^verbatim>\<open>no\<close>.
\<close>

definition rw_all :: perm where
  "rw_all = \<lparr>client = ''*'', access = ''RW'', no_root_squash = True\<rparr>"

definition system_with_export :: "perm list \<Rightarrow> system" where
  "system_with_export cl =
     empty_system\<lparr>filesystems := [''fs1'' \<mapsto> \<lparr>in_pool = ''bar'', dataset_size = 1024 * KiB\<rparr>],
       exports := [\<lparr>export_path = ''/data'', export_filesystem = ''fs1'', permissions = cl\<rparr>]\<rparr>"

definition system_with_filesystem :: system where
  "system_with_filesystem =
     empty_system\<lparr>filesystems := [''fs1'' \<mapsto> \<lparr>in_pool = ''bar'', dataset_size = 1024 * KiB\<rparr>]\<rparr>"

definition client_1 :: "string \<Rightarrow> bool \<Rightarrow> perm" where
  "client_1 a nrs = \<lparr>client = ''10.0.0.1'', access = a, no_root_squash = nrs\<rparr>"

definition client_2 :: perm where
  "client_2 = \<lparr>client = ''10.0.0.2'', access = ''RO'', no_root_squash = False\<rparr>"

definition client_1_read_only :: client_params where
  "client_1_read_only =
     \<lparr>client_param = ''10.0.0.1'', access_mode = ''RO'', no_root_squash_param = False,
      state_param = Present, export_param = ''/data''\<rparr>"

definition client_1_absent :: client_params where
  "client_1_absent =
     \<lparr>client_param = ''10.0.0.1'', access_mode = ''RW'', no_root_squash_param = False,
      state_param = Absent, export_param = ''/data''\<rparr>"

definition perm_a :: perm where
  "perm_a = \<lparr>client = ''192.168.0.2'', access = ''RW'', no_root_squash = True\<rparr>"

definition perm_b :: perm where
  "perm_b = \<lparr>client = ''192.168.0.100'', access = ''RO'', no_root_squash = False\<rparr>"

definition export_with_list :: "perm list option \<Rightarrow> export_params" where
  "export_with_list cl = \<lparr>name = ''/data'', state = Present, filesystem = ''fs1'', client_list = cl\<rparr>"

section \<open>Properties\<close>

subsection \<open>Rounding a capacity up\<close>

lemma ceiling_nat_quotient:
  assumes "0 < a"
  shows "nat \<lceil>(of_nat x :: rat) / of_nat a\<rceil> = (if x mod a = 0 then x div a else x div a + 1)"
proof -
  have "\<lceil>(of_nat x :: rat) / of_nat a\<rceil> = - (- int x div int a)"
    using ceiling_divide_eq_div [of "int x" "int a", where ?'a = rat] by simp
  also have "\<dots> = (if int x mod int a = 0 then int x div int a else int x div int a + 1)"
    using assms by (simp add: zdiv_zminus1_eq_if)
  also have "\<dots> = int (if x mod a = 0 then x div a else x div a + 1)"
    by (simp flip: of_nat_mod of_nat_div)
  finally show ?thesis by simp
qed

lemma roundup_eq:
  "0 < a \<Longrightarrow> roundup x a = (if x mod a = 0 then x else (x div a + 1) * a)"
  by (simp add: roundup_def ceiling_nat_quotient mod_eq_0_iff_dvd)

lemma roundup_dvd: "a dvd roundup x a"
  by (simp add: roundup_def)

lemma roundup_ge:
  assumes "0 < a"
  shows "x \<le> roundup x a"
proof (cases "x mod a = 0")
  case True
  then show ?thesis using assms by (simp add: roundup_eq)
next
  case False
  have "x = x div a * a + x mod a" by simp
  moreover have "x mod a < a" using assms by simp
  ultimately have "x < x div a * a + a" by linarith
  then show ?thesis using assms False by (simp add: roundup_eq)
qed

lemma roundup_least:
  assumes "0 < a" and "a dvd m" and "x \<le> m"
  shows "roundup x a \<le> m"
proof (cases "x mod a = 0")
  case True
  then show ?thesis using assms by (simp add: roundup_eq)
next
  case False
  from assms(2) obtain k where m: "m = a * k" by (auto simp: dvd_def)
  have "x div a < k"
  proof (rule ccontr)
    assume "\<not> x div a < k"
    then have "k \<le> x div a" by simp
    then have "a * k \<le> a * (x div a)" by simp
    also have "\<dots> \<le> x" by simp
    finally have "x = m" using assms(3) m by simp
    then show False using False m by simp
  qed
  then have "x div a + 1 \<le> k" by simp
  then have "(x div a + 1) * a \<le> k * a" by (rule mult_le_mono1)
  then show ?thesis using assms(1) False m by (simp add: roundup_eq mult.commute)
qed

lemma roundup_fixed: "0 < a \<Longrightarrow> a dvd x \<Longrightarrow> roundup x a = x"
  by (simp add: roundup_eq mod_eq_0_iff_dvd)

text \<open>The same function without the detour through the rationals, for evaluation.\<close>

lemma roundup_code [code]:
  "roundup x a = (if a = 0 then 0 else if x mod a = 0 then x else (x div a + 1) * a)"
  by (simp add: roundup_eq) (simp add: roundup_def)

text \<open>
  Claim C6. For every capacity \<open>x\<close> and every alignment \<open>a > 0\<close>, \<open>roundup x a\<close> is a
  multiple of \<open>a\<close>, it is the smallest multiple of \<open>a\<close> that is at least \<open>x\<close>, and
  rounding up twice is rounding up once.
\<close>

theorem roundup_smallest_multiple:
  assumes "0 < a"
  shows "a dvd roundup x a
       \<and> x \<le> roundup x a
       \<and> (\<forall>m. a dvd m \<and> x \<le> m \<longrightarrow> roundup x a \<le> m)
       \<and> roundup (roundup x a) a = roundup x a"
  using assms by (simp add: roundup_dvd roundup_ge roundup_least roundup_fixed)

text \<open>
  The 64 KiB rounding of \<^verbatim>\<open>update_volume\<close> at a size of 100000 bytes: the result is
  a multiple of 65536 between 100000 and 131072, and rounding it again changes nothing.
\<close>

theorem roundup_smallest_multiple_witness:
  "(0::nat) < 64 * KiB
   \<and> 64 * KiB dvd roundup 100000 (64 * KiB)
   \<and> 100000 \<le> roundup 100000 (64 * KiB)
   \<and> roundup 100000 (64 * KiB) \<le> 131072
   \<and> roundup (roundup 100000 (64 * KiB)) (64 * KiB) = roundup 100000 (64 * KiB)"
proof -
  have pos: "(0::nat) < 64 * KiB" by (simp add: KiB_def)
  have m: "64 * KiB dvd (131072::nat) \<and> (100000::nat) \<le> 131072" by (simp add: KiB_def)
  from roundup_smallest_multiple [OF pos, of 100000] pos m show ?thesis by blast
qed

subsection \<open>Pools\<close>

lemma roundup_10TB: "roundup (10 * TB) (384 * KiB) = 10000000352256"
  by (simp add: roundup_eq TB_def KiB_def)

lemma roundup_300TB: "roundup (300 * TB) (384 * KiB) = 300000000344064"
  by (simp add: roundup_eq TB_def KiB_def)

lemma TB_10_not_rounded: "10 * TB \<noteq> (10000000352256::nat)"
  by (simp add: TB_def)

text \<open>Ten binary terabytes are not a multiple of 6 * 64 KiB either.\<close>

lemma binary_10TB_not_aligned: "roundup (10 * 1024 ^ 4) (6 * 64 * KiB) \<noteq> 10 * 1024 ^ 4"
  by (simp add: roundup_eq KiB_def)

lemma log_call_simps:
  "pools (log_call c s) = pools s" "volumes (log_call c s) = volumes s"
  "filesystems (log_call c s) = filesystems s" "exports (log_call c s) = exports s"
  "hosts (log_call c s) = hosts s" "calls (log_call c s) = calls s @ [c]"
  by (simp_all add: log_call_def)

lemma update_physical_capacity_simps:
  "pools (update_physical_capacity A h c s) =
     (pools s)(h := map_option (\<lambda>pl. pl\<lparr>physical_capacity := store_capacity A c\<rparr>) (pools s h))"
  "calls (update_physical_capacity A h c s) = calls s @ [Update_physical_capacity h c]"
  by (simp_all add: update_physical_capacity_def log_call_simps)

lemma update_virtual_capacity_simps:
  "pools (update_virtual_capacity A h c s) =
     (pools s)(h := map_option (\<lambda>pl. pl\<lparr>virtual_capacity := store_capacity A c\<rparr>) (pools s h))"
  "calls (update_virtual_capacity A h c s) = calls s @ [Update_virtual_capacity h c]"
  by (simp_all add: update_virtual_capacity_def log_call_simps)

lemma update_ssd_enabled_simps:
  "pools (update_ssd_enabled h b s) =
     (pools s)(h := map_option (\<lambda>pl. pl\<lparr>ssd_enabled := b\<rparr>) (pools s h))"
  "calls (update_ssd_enabled h b s) = calls s @ [Update_ssd_enabled h b]"
  by (simp_all add: update_ssd_enabled_def log_call_simps)

lemmas pool_call_simps =
  update_physical_capacity_simps update_virtual_capacity_simps update_ssd_enabled_simps

lemma update_pool_result:
  assumes "pools s h = Some pl" and "size p \<noteq> Malformed" and "vsize p \<noteq> Malformed"
  shows "let f1 = (case size p of Parses c \<Rightarrow> physical_capacity pl \<noteq> roundup c (6 * 64 * KiB) | _ \<Rightarrow> False);
             f2 = (case vsize p of Parses v \<Rightarrow> virtual_capacity pl \<noteq> roundup v (6 * 64 * KiB) | _ \<Rightarrow> False);
             f3 = (ssd_enabled pl \<noteq> ssd_cache p);
             s' = snd (update_pool A p h s)
         in fst (update_pool A p h s) = Exit_json (f1 \<or> f2 \<or> f3)
          \<and> pools s' h = Some
               \<lparr>physical_capacity =
                  (case size p of Parses c \<Rightarrow>
                     if f1 then store_capacity A (roundup c (6 * 64 * KiB)) else physical_capacity pl
                   | _ \<Rightarrow> physical_capacity pl),
                virtual_capacity =
                  (case vsize p of Parses v \<Rightarrow>
                     if f2 then store_capacity A (roundup v (6 * 64 * KiB)) else virtual_capacity pl
                   | _ \<Rightarrow> virtual_capacity pl),
                ssd_enabled = ssd_cache p\<rparr>
          \<and> calls s' = calls s
               @ (case size p of Parses c \<Rightarrow>
                    if f1 then [Update_physical_capacity h (roundup c (6 * 64 * KiB))] else []
                  | _ \<Rightarrow> [])
               @ (case vsize p of Parses v \<Rightarrow>
                    if f2 then [Update_virtual_capacity h (roundup v (6 * 64 * KiB))] else []
                  | _ \<Rightarrow> [])
               @ (if f3 then [Update_ssd_enabled h (ssd_cache p)] else [])"
proof (cases "size p")
  case Unset
  show ?thesis
  proof (cases "vsize p")
    case Unset
    with \<open>size p = Unset\<close> assms(1) show ?thesis
      by (cases pl)
         (simp add: update_pool_def update_pool_physical_def update_pool_virtual_def
            update_pool_ssd_def pool_call_simps Let_def)
  next
    case Malformed
    with assms show ?thesis by simp
  next
    case (Parses v)
    with \<open>size p = Unset\<close> assms(1) show ?thesis
      by (cases pl)
         (simp add: update_pool_def update_pool_physical_def update_pool_virtual_def
            update_pool_ssd_def pool_call_simps Let_def)
  qed
next
  case Malformed
  with assms show ?thesis by simp
next
  case (Parses c)
  show ?thesis
  proof (cases "vsize p")
    case Unset
    with \<open>size p = Parses c\<close> assms(1) show ?thesis
      by (cases pl)
         (simp add: update_pool_def update_pool_physical_def update_pool_virtual_def
            update_pool_ssd_def pool_call_simps Let_def)
  next
    case Malformed
    with assms show ?thesis by simp
  next
    case (Parses v)
    with \<open>size p = Parses c\<close> assms(1) show ?thesis
      by (cases pl)
         (simp add: update_pool_def update_pool_physical_def update_pool_virtual_def
            update_pool_ssd_def pool_call_simps Let_def)
  qed
qed


lemma pools_create_simps:
  "pools (pools_create A n pc vc s) = (pools s)(n \<mapsto>
     \<lparr>physical_capacity = store_capacity A pc, virtual_capacity = store_capacity A vc,
      ssd_enabled = True\<rparr>)"
  "calls (pools_create A n pc vc s) = calls s @ [Pools_create n pc vc]"
  by (simp_all add: pools_create_def log_call_simps)

lemma pool_main_update:
  assumes "pools s (name p) = Some pl" and "state p = Present"
    and "size p \<noteq> Malformed" and "vsize p \<noteq> Malformed"
  shows "pool_main A p s = update_pool A p (name p) s"
  using assms by (cases "size p"; cases "vsize p") (simp_all add: pool_main_def get_pool_def)

lemma pool_main_create:
  assumes "pools s (name p) = None" and "state p = Present"
    and "size p = Parses c" and "vsize p = Unset"
  shows "pool_main A p s =
     (Exit_json True,
      if ssd_cache p then pools_create A (name p) c c s
      else update_ssd_enabled (name p) False (pools_create A (name p) c c s))"
  using assms by (simp add: pool_main_def get_pool_def create_pool_def Let_def)

lemma update_pool_size_only:
  assumes "pools s h = Some pl" and "size p = Parses c" and "vsize p = Unset"
    and "ssd_enabled pl = ssd_cache p"
  shows "update_pool A p h s =
     (Exit_json (physical_capacity pl \<noteq> roundup c (6 * 64 * KiB)),
      if physical_capacity pl = roundup c (6 * 64 * KiB) then s
      else update_physical_capacity A h (roundup c (6 * 64 * KiB)) s)"
  using assms
  by (simp add: update_pool_def update_pool_physical_def update_pool_virtual_def
        update_pool_ssd_def pool_call_simps Let_def)

text \<open>
  Claim C1, as amended. Reconciling a pool that does not exist with \<^verbatim>\<open>state=present\<close> and
  a size that parses to \<open>c\<close> bytes (the claim has 10TB) and no \<^verbatim>\<open>vsize\<close> reports
  \<open>changed = True\<close> and issues one create call with physical = virtual = \<open>c\<close>; the pool
  then holds what the array made of \<open>c\<close>. A second run with the same parameters compares
  the physical capacity of the pool with \<open>c\<close> rounded up to a multiple of 6 * 64 KiB: it
  issues no call, leaves the array as it is and reports \<open>changed = False\<close> exactly when
  the array holds that rounded value, and otherwise calls \<^verbatim>\<open>update_physical_capacity\<close>
  and reports \<open>changed = True\<close>.
\<close>

theorem pool_create_then_reconcile:
  assumes "pools s (name p) = None" and "state p = Present"
    and "size p = Parses c" and "vsize p = Unset"
  shows "let s1 = snd (pool_main A p s)
         in fst (pool_main A p s) = Exit_json True
          \<and> calls s1 = calls s @ Pools_create (name p) c c #
               (if ssd_cache p then [] else [Update_ssd_enabled (name p) False])
          \<and> pools s1 (name p) = Some
               \<lparr>physical_capacity = store_capacity A c, virtual_capacity = store_capacity A c,
                ssd_enabled = ssd_cache p\<rparr>
          \<and> pool_main A p s1 =
               (Exit_json (store_capacity A c \<noteq> roundup c (6 * 64 * KiB)),
                if store_capacity A c = roundup c (6 * 64 * KiB) then s1
                else update_physical_capacity A (name p) (roundup c (6 * 64 * KiB)) s1)"
proof -
  define s1 where "s1 = snd (pool_main A p s)"
  define pl where "pl = \<lparr>physical_capacity = store_capacity A c,
    virtual_capacity = store_capacity A c, ssd_enabled = ssd_cache p\<rparr>"
  have first: "pool_main A p s = (Exit_json True, s1)"
    unfolding s1_def using pool_main_create [OF assms] by simp
  have s1: "s1 = (if ssd_cache p then pools_create A (name p) c c s
      else update_ssd_enabled (name p) False (pools_create A (name p) c c s))"
    unfolding s1_def using pool_main_create [OF assms] by simp
  have calls: "calls s1 = calls s @ Pools_create (name p) c c #
               (if ssd_cache p then [] else [Update_ssd_enabled (name p) False])"
    by (simp add: s1 pools_create_simps pool_call_simps)
  have pools: "pools s1 (name p) = Some pl"
    by (simp add: s1 pl_def pools_create_simps pool_call_simps)
  have "size p \<noteq> Malformed" and "vsize p \<noteq> Malformed"
    using assms by simp_all
  then have "pool_main A p s1 = update_pool A p (name p) s1"
    using pools assms(2) by (rule_tac pool_main_update) simp_all
  also have "\<dots> = (Exit_json (physical_capacity pl \<noteq> roundup c (6 * 64 * KiB)),
      if physical_capacity pl = roundup c (6 * 64 * KiB) then s1
      else update_physical_capacity A (name p) (roundup c (6 * 64 * KiB)) s1)"
    using pools assms(3,4) by (rule update_pool_size_only) (simp add: pl_def)
  finally have second: "pool_main A p s1 =
      (Exit_json (store_capacity A c \<noteq> roundup c (6 * 64 * KiB)),
       if store_capacity A c = roundup c (6 * 64 * KiB) then s1
       else update_physical_capacity A (name p) (roundup c (6 * 64 * KiB)) s1)"
    by (simp add: pl_def)
  show ?thesis
    using first calls pools second unfolding s1_def [symmetric] Let_def pl_def by simp
qed

text \<open>
  On an array that rounds pool capacities, the pool created for 10TB holds
  10000000352256 bytes and the second run does nothing.
\<close>

theorem pool_create_then_reconcile_witness:
  "pools empty_system ''foo'' = None
   \<and> fst (pool_main array_as_documented pool_10TB empty_system) = Exit_json True
   \<and> calls (snd (pool_main array_as_documented pool_10TB empty_system)) = [Pools_create ''foo'' (10 * TB) (10 * TB)]
   \<and> pools (snd (pool_main array_as_documented pool_10TB empty_system)) ''foo'' = Some
        \<lparr>physical_capacity = 10000000352256, virtual_capacity = 10000000352256, ssd_enabled = True\<rparr>
   \<and> pool_main array_as_documented pool_10TB (snd (pool_main array_as_documented pool_10TB empty_system)) =
        (Exit_json False, snd (pool_main array_as_documented pool_10TB empty_system))"
  using pool_create_then_reconcile [of empty_system pool_10TB "10 * TB" array_as_documented]
  by (simp add: empty_system_def pool_10TB_def array_as_documented_def Let_def roundup_10TB)

text \<open>
  Claim C1 as the spec states it fails: on an array where the new pool holds exactly
  10TB for both capacities, as the claim says it does, the second run with the same
  parameters calls \<^verbatim>\<open>update_physical_capacity\<close> and reports \<open>changed = True\<close>, because
  10TB is not a multiple of 6 * 64 KiB.
\<close>

theorem pool_second_run_updates_counterexample:
  "fst (pool_main stores_as_given pool_10TB empty_system) = Exit_json True
   \<and> pools (snd (pool_main stores_as_given pool_10TB empty_system)) ''foo'' = Some
        \<lparr>physical_capacity = 10 * TB, virtual_capacity = 10 * TB, ssd_enabled = True\<rparr>
   \<and> fst (pool_main stores_as_given pool_10TB (snd (pool_main stores_as_given pool_10TB empty_system)))
        = Exit_json True
   \<and> calls (snd (pool_main stores_as_given pool_10TB (snd (pool_main stores_as_given pool_10TB empty_system))))
        = [Pools_create ''foo'' (10 * TB) (10 * TB), Update_physical_capacity ''foo'' 10000000352256]"
proof -
  have 1: "pool_main stores_as_given pool_10TB empty_system =
             (Exit_json True, pools_create stores_as_given ''foo'' (10 * TB) (10 * TB) empty_system)"
    using pool_main_create [of empty_system pool_10TB "10 * TB" stores_as_given]
    by (simp add: empty_system_def pool_10TB_def)
  have 2: "pools (pools_create stores_as_given ''foo'' (10 * TB) (10 * TB) empty_system) ''foo'' = Some
        \<lparr>physical_capacity = 10 * TB, virtual_capacity = 10 * TB, ssd_enabled = True\<rparr>"
    by (simp add: pools_create_simps stores_as_given_def)
  have 3: "pool_main stores_as_given pool_10TB (pools_create stores_as_given ''foo'' (10 * TB) (10 * TB) empty_system)
       = update_pool stores_as_given pool_10TB ''foo'' (pools_create stores_as_given ''foo'' (10 * TB) (10 * TB) empty_system)"
    using pool_main_update [of "pools_create stores_as_given ''foo'' (10 * TB) (10 * TB) empty_system" pool_10TB _ stores_as_given] 2
    by (simp add: pool_10TB_def)
  have 4: "update_pool stores_as_given pool_10TB ''foo'' (pools_create stores_as_given ''foo'' (10 * TB) (10 * TB) empty_system)
       = (Exit_json True, update_physical_capacity stores_as_given ''foo'' 10000000352256
            (pools_create stores_as_given ''foo'' (10 * TB) (10 * TB) empty_system))"
    using update_pool_size_only [OF 2, of pool_10TB "10 * TB" stores_as_given] TB_10_not_rounded
    by (simp add: pool_10TB_def roundup_10TB)
  show ?thesis
    unfolding 1 snd_conv fst_conv 3 4
    by (simp add: pools_create_simps pool_call_simps empty_system_def stores_as_given_def)
qed

text \<open>
  Claim C9. On a pool that exists, \<^verbatim>\<open>state=present\<close> compares three fields, each on its
  own: the physical capacity when \<^verbatim>\<open>size\<close> is given, the virtual capacity when \<^verbatim>\<open>vsize\<close>
  is given, and the ssd flag always. \<open>f1\<close>, \<open>f2\<close> and \<open>f3\<close> say which of them differ from
  what is wanted. The module reports their disjunction as \<open>changed\<close>, issues one update
  call for each field that differs and none for the others, and a field that does not
  differ, or whose parameter is not given, keeps its value.
\<close>

theorem pool_update_fields_independent:
  assumes "pools s (name p) = Some pl" and "state p = Present"
    and "size p \<noteq> Malformed" and "vsize p \<noteq> Malformed"
  shows "let f1 = (case size p of Parses c \<Rightarrow> physical_capacity pl \<noteq> roundup c (6 * 64 * KiB) | _ \<Rightarrow> False);
             f2 = (case vsize p of Parses v \<Rightarrow> virtual_capacity pl \<noteq> roundup v (6 * 64 * KiB) | _ \<Rightarrow> False);
             f3 = (ssd_enabled pl \<noteq> ssd_cache p);
             s' = snd (pool_main A p s)
         in fst (pool_main A p s) = Exit_json (f1 \<or> f2 \<or> f3)
          \<and> pools s' (name p) = Some
               \<lparr>physical_capacity =
                  (case size p of Parses c \<Rightarrow>
                     if f1 then store_capacity A (roundup c (6 * 64 * KiB)) else physical_capacity pl
                   | _ \<Rightarrow> physical_capacity pl),
                virtual_capacity =
                  (case vsize p of Parses v \<Rightarrow>
                     if f2 then store_capacity A (roundup v (6 * 64 * KiB)) else virtual_capacity pl
                   | _ \<Rightarrow> virtual_capacity pl),
                ssd_enabled = ssd_cache p\<rparr>
          \<and> calls s' = calls s
               @ (case size p of Parses c \<Rightarrow>
                    if f1 then [Update_physical_capacity (name p) (roundup c (6 * 64 * KiB))] else []
                  | _ \<Rightarrow> [])
               @ (case vsize p of Parses v \<Rightarrow>
                    if f2 then [Update_virtual_capacity (name p) (roundup v (6 * 64 * KiB))] else []
                  | _ \<Rightarrow> [])
               @ (if f3 then [Update_ssd_enabled (name p) (ssd_cache p)] else [])"
  unfolding pool_main_update [OF assms]
  using assms(1,3,4) by (rule update_pool_result)

text \<open>
  The pool of the claim: physical = virtual = 10TB, and only \<^verbatim>\<open>vsize=300TB\<close> is given.
  The virtual capacity is updated, the physical capacity stays 10TB, and \<open>changed\<close> is
  \<open>True\<close>.
\<close>

theorem pool_update_fields_independent_witness:
  "pools system_with_pool_10TB ''foo'' = Some
      \<lparr>physical_capacity = 10 * TB, virtual_capacity = 10 * TB, ssd_enabled = True\<rparr>
   \<and> fst (pool_main stores_as_given pool_vsize_300TB system_with_pool_10TB) = Exit_json True
   \<and> pools (snd (pool_main stores_as_given pool_vsize_300TB system_with_pool_10TB)) ''foo'' = Some
      \<lparr>physical_capacity = 10 * TB, virtual_capacity = 300000000344064, ssd_enabled = True\<rparr>
   \<and> calls (snd (pool_main stores_as_given pool_vsize_300TB system_with_pool_10TB)) =
      [Update_virtual_capacity ''foo'' 300000000344064]"
proof -
  have pl: "pools system_with_pool_10TB (name pool_vsize_300TB) = Some
      \<lparr>physical_capacity = 10 * TB, virtual_capacity = 10 * TB, ssd_enabled = True\<rparr>"
    by (simp add: system_with_pool_10TB_def pool_vsize_300TB_def)
  have ne: "10 * TB \<noteq> (300000000344064::nat)"
    by (simp add: TB_def)
  from pool_update_fields_independent [OF pl, of stores_as_given] pl ne show ?thesis
    by (simp add: pool_vsize_300TB_def Let_def roundup_300TB stores_as_given_def
          system_with_pool_10TB_def empty_system_def)
qed

subsection \<open>Resources and parents that do not exist\<close>

lemma find_export_None:
  "\<forall>e\<in>set es. export_path e \<noteq> path \<Longrightarrow> find_export path es i = None"
  by (induction es arbitrary: i) simp_all

lemma find_host_None:
  "\<forall>h\<in>set hs. host_name h \<noteq> n \<Longrightarrow> find_host n hs i = None"
  by (induction hs arbitrary: i) simp_all

lemma pool_main_absent_none:
  assumes "state p = Absent" and "size p \<noteq> Malformed" and "vsize p \<noteq> Malformed"
    and "pools s (name p) = None"
  shows "pool_main A p s = (Exit_json False, s)"
  using assms by (cases "size p"; cases "vsize p") (simp_all add: pool_main_def get_pool_def)

lemma vol_main_absent_none:
  assumes "state p = Absent" and "size p \<noteq> Malformed" and "pools s (pool p) \<noteq> None"
    and "volumes s (name p) = None"
  shows "vol_main A p s = (Exit_json False, s)"
  using assms
  by (cases "size p") (auto simp add: vol_main_def vol_get_pool_def get_volume_def)

lemma fs_main_absent_none:
  assumes "state p = Absent" and "size p \<noteq> Malformed" and "pools s (pool p) \<noteq> None"
    and "filesystems s (name p) = None"
  shows "fs_main A p s = (Exit_json False, s)"
  using assms
  by (cases "size p") (auto simp add: fs_main_def vol_get_pool_def get_filesystem_def)

lemma export_main_absent_none:
  assumes "state p = Absent" and "filesystems s (filesystem p) \<noteq> None"
    and "\<forall>e\<in>set (exports s). export_path e \<noteq> name p"
  shows "export_main A p s = (Exit_json False, s)"
  using assms
  by (auto simp add: export_main_def export_get_filesystem_def get_export_def find_export_None)

lemma host_main_absent_none:
  assumes "state p = Absent" and "\<forall>h\<in>set (hosts s). host_name h \<noteq> name p"
    and "case volume p of None \<Rightarrow> True | Some v \<Rightarrow> v = [] \<or> volumes s v \<noteq> None"
  shows "host_main p s = (Exit_json False, s)"
  using assms
  by (cases "volume p") (auto simp add: host_main_def get_host_def find_host_None)

text \<open>
  Claim C7. For a pool, a volume, a filesystem, an export and a host: when
  \<^verbatim>\<open>state=absent\<close> is asked for a name (or path) that is not on the array, and the
  other preconditions of the module hold (sizes that are unset or parse; the pool of the
  volume or filesystem exists; the filesystem of the export exists; the volume of the
  host, when one is named, exists), the module reports \<open>changed = False\<close> and the array,
  with its log of calls, is what it was.
\<close>

theorem absent_nonexistent_noop:
  "(state pp = Absent \<and> size pp \<noteq> Malformed \<and> vsize pp \<noteq> Malformed
      \<and> pools s (name pp) = None
      \<longrightarrow> pool_main A pp s = (Exit_json False, s))
   \<and> (state vp = Absent \<and> size vp \<noteq> Malformed \<and> pools s (pool vp) \<noteq> None
      \<and> volumes s (name vp) = None
      \<longrightarrow> vol_main A vp s = (Exit_json False, s))
   \<and> (state fp = Absent \<and> size fp \<noteq> Malformed \<and> pools s (pool fp) \<noteq> None
      \<and> filesystems s (name fp) = None
      \<longrightarrow> fs_main A fp s = (Exit_json False, s))
   \<and> (state ep = Absent \<and> filesystems s (filesystem ep) \<noteq> None
      \<and> (\<forall>e\<in>set (exports s). export_path e \<noteq> name ep)
      \<longrightarrow> export_main A ep s = (Exit_json False, s))
   \<and> (state hp = Absent \<and> (\<forall>h\<in>set (hosts s). host_name h \<noteq> name hp)
      \<and> (case volume hp of None \<Rightarrow> True | Some v \<Rightarrow> v = [] \<or> volumes s v \<noteq> None)
      \<longrightarrow> host_main hp s = (Exit_json False, s))"
  by (simp add: pool_main_absent_none vol_main_absent_none fs_main_absent_none
        export_main_absent_none host_main_absent_none)

text \<open>The five modules on an array that has only the pool \<open>bar\<close> and the filesystem \<open>fs1\<close>.\<close>

theorem absent_nonexistent_noop_witness:
  "pool_main stores_as_given absent_pool system_with_pool_and_filesystem
     = (Exit_json False, system_with_pool_and_filesystem)
   \<and> vol_main stores_as_given absent_dataset system_with_pool_and_filesystem
     = (Exit_json False, system_with_pool_and_filesystem)
   \<and> fs_main stores_as_given absent_dataset system_with_pool_and_filesystem
     = (Exit_json False, system_with_pool_and_filesystem)
   \<and> export_main stores_as_given absent_export system_with_pool_and_filesystem
     = (Exit_json False, system_with_pool_and_filesystem)
   \<and> host_main absent_host system_with_pool_and_filesystem
     = (Exit_json False, system_with_pool_and_filesystem)"
  using absent_nonexistent_noop [where pp = absent_pool and vp = absent_dataset
      and fp = absent_dataset and ep = absent_export and hp = absent_host
      and s = system_with_pool_and_filesystem and A = stores_as_given]
  by (simp add: absent_pool_def absent_dataset_def absent_export_def absent_host_def
        system_with_pool_and_filesystem_def empty_system_def)

text \<open>
  Claim C8, as amended. For every invocation of \<^verbatim>\<open>infini_vol\<close> and of \<^verbatim>\<open>infini_fs\<close>
  whose pool is not on the array, the module fails and the array, with its log of calls,
  is what it was. The failure is the message that the pool was not found when \<^verbatim>\<open>size\<close>
  is unset or parses, and the message about the size when \<^verbatim>\<open>Capacity\<close> raises on it:
  \<^verbatim>\<open>main\<close> validates the size before it looks the pool up. The parameters are arbitrary,
  so this holds for \<^verbatim>\<open>state=present\<close> and for \<^verbatim>\<open>state=absent\<close>.
\<close>

theorem missing_pool_fails:
  "(pools s (pool vp) = None
      \<longrightarrow> vol_main A vp s =
          (Fail_json (if size vp = Malformed then Size_invalid else Pool_not_found (pool vp)), s))
   \<and> (pools s (pool fp) = None
      \<longrightarrow> fs_main A fp s =
          (Fail_json (if size fp = Malformed then Size_invalid else Pool_not_found (pool fp)), s))"
  by (cases "size vp"; cases "size fp")
     (simp_all add: vol_main_def fs_main_def vol_get_pool_def)

text \<open>
  A volume with \<^verbatim>\<open>state=present\<close> and a filesystem with \<^verbatim>\<open>state=absent\<close> in a pool that is
  missing, with a size that parses; and the same two with a size that does not.
\<close>

theorem missing_pool_fails_witness:
  "pools system_with_pool_and_filesystem ''nopool'' = None
   \<and> vol_main stores_as_given (dataset_in_missing_pool Present) system_with_pool_and_filesystem
     = (Fail_json (Pool_not_found ''nopool''), system_with_pool_and_filesystem)
   \<and> fs_main stores_as_given (dataset_in_missing_pool Absent) system_with_pool_and_filesystem
     = (Fail_json (Pool_not_found ''nopool''), system_with_pool_and_filesystem)
   \<and> vol_main stores_as_given (dataset_malformed_size Absent) system_with_pool_and_filesystem
     = (Fail_json Size_invalid, system_with_pool_and_filesystem)
   \<and> fs_main stores_as_given (dataset_malformed_size Present) system_with_pool_and_filesystem
     = (Fail_json Size_invalid, system_with_pool_and_filesystem)"
  using missing_pool_fails [where vp = "dataset_in_missing_pool Present"
      and fp = "dataset_in_missing_pool Absent"
      and s = system_with_pool_and_filesystem and A = stores_as_given]
    missing_pool_fails [where vp = "dataset_malformed_size Absent"
      and fp = "dataset_malformed_size Present"
      and s = system_with_pool_and_filesystem and A = stores_as_given]
  by (simp add: dataset_in_missing_pool_def dataset_malformed_size_def
        system_with_pool_and_filesystem_def empty_system_def)

text \<open>
  Claim C8 as the spec states it fails: with a pool that is missing and a size on which
  \<^verbatim>\<open>Capacity\<close> raises, the volume module and the filesystem module fail with the message
  about the size, which is not the message that the pool was not found. No call is
  issued here either.
\<close>

theorem missing_pool_malformed_size_counterexample:
  "pools system_with_pool_and_filesystem (pool (dataset_malformed_size Present)) = None
   \<and> vol_main stores_as_given (dataset_malformed_size Present) system_with_pool_and_filesystem
     = (Fail_json Size_invalid, system_with_pool_and_filesystem)
   \<and> fs_main stores_as_given (dataset_malformed_size Present) system_with_pool_and_filesystem
     = (Fail_json Size_invalid, system_with_pool_and_filesystem)
   \<and> Fail_json Size_invalid \<noteq> Fail_json (Pool_not_found (pool (dataset_malformed_size Present)))"
  by (simp add: vol_main_def fs_main_def dataset_malformed_size_def
        system_with_pool_and_filesystem_def empty_system_def)

text \<open>
  Claim C10. For every invocation of \<^verbatim>\<open>infini_host\<close> that names a volume which is not
  on the array, the module fails with the message that the volume was not found,
  whatever \<^verbatim>\<open>state\<close> is and whether or not the host exists, and the array, with its log
  of calls, is what it was.
\<close>

theorem host_missing_volume_fails:
  assumes "volume p = Some v" and "v \<noteq> []" and "volumes s v = None"
  shows "host_main p s = (Fail_json (Volume_not_found v), s)"
  using assms by (simp add: host_main_def)

text \<open>
  A host that does not exist and a volume that does not exist: \<^verbatim>\<open>state=absent\<close> fails
  instead of reporting \<open>changed = False\<close>, and so does \<^verbatim>\<open>state=present\<close>.
\<close>

theorem host_missing_volume_fails_witness:
  "volumes empty_system ''novol'' = None
   \<and> hosts empty_system = []
   \<and> host_main (host_with_missing_volume Absent) empty_system
       = (Fail_json (Volume_not_found ''novol''), empty_system)
   \<and> host_main (host_with_missing_volume Present) empty_system
       = (Fail_json (Volume_not_found ''novol''), empty_system)"
  using host_missing_volume_fails [of "host_with_missing_volume Absent" "''novol''" empty_system]
    host_missing_volume_fails [of "host_with_missing_volume Present" "''novol''" empty_system]
  by (simp add: host_with_missing_volume_def empty_system_def)

subsection \<open>Exports\<close>

lemma transform_inj:
  assumes "transform d = transform d'"
  shows "d = d'"
proof -
  have "(''client'', Str (client d)) \<in> transform d"
    and "(''access'', Str (access d)) \<in> transform d"
    and "(''no_root_squash'', Bool (no_root_squash d)) \<in> transform d"
    by (simp_all add: transform_def items_def)
  then have "(''client'', Str (client d)) \<in> transform d'"
    and "(''access'', Str (access d)) \<in> transform d'"
    and "(''no_root_squash'', Bool (no_root_squash d)) \<in> transform d'"
    using assms by simp_all
  then have "client d = client d'" and "access d = access d'"
    and "no_root_squash d = no_root_squash d'"
    by (simp_all add: transform_def items_def)
  then show ?thesis by simp
qed

lemma permissions_differ_iff: "permissions_differ L1 L2 \<longleftrightarrow> set L1 \<noteq> set L2"
proof -
  have "inj transform" by (rule injI) (rule transform_inj)
  then show ?thesis
    by (simp add: permissions_differ_def inj_image_eq_iff)
qed

lemma find_export_Some:
  "find_export path es k = Some j \<Longrightarrow> k \<le> j \<and> j - k < length es \<and> export_path (es ! (j - k)) = path"
proof (induction es arbitrary: k)
  case Nil
  then show ?case by simp
next
  case (Cons e es)
  show ?case
  proof (cases "export_path e = path")
    case True
    with Cons.prems show ?thesis by simp
  next
    case False
    with Cons.prems have "find_export path es (Suc k) = Some j" by simp
    from Cons.IH [OF this] show ?thesis
      by (auto simp add: Suc_diff_le nth_Cons')
  qed
qed

lemma get_export_Some: "get_export p s = Some i \<Longrightarrow> i < length (exports s)"
  using find_export_Some [of "name p" "exports s" 0 i] by (simp add: get_export_def)

lemma export_main_same_set:
  assumes "state p = Present" and "filesystems s (filesystem p) \<noteq> None"
    and "get_export p s = Some i" and "client_list p = Some cl"
    and "set (permissions (exports s ! i)) = set cl"
  shows "export_main A p s = (Exit_json False, s)"
  using assms get_export_Some [OF assms(3)]
  by (auto simp add: export_main_def export_get_filesystem_def update_export_def
        permissions_differ_iff)

text \<open>
  Claim C2. The comparison of \<^verbatim>\<open>update_export\<close> judges two lists of permission entries
  equal whenever one is a permutation of the other; it judges them different exactly
  when they differ as sets of entries, so repeated entries collapse. Hence
  \<^verbatim>\<open>state=present\<close> on an export whose permissions are a permutation of the
  \<^verbatim>\<open>client_list\<close> reports \<open>changed = False\<close> and leaves the array, with its log of calls,
  as it was.
\<close>

theorem permuted_client_list_no_update:
  "(mset L1 = mset L2 \<longrightarrow> \<not> permissions_differ L1 L2)
   \<and> (permissions_differ L1 L2 \<longleftrightarrow> set L1 \<noteq> set L2)
   \<and> (state p = Present \<and> filesystems s (filesystem p) \<noteq> None \<and> get_export p s = Some i
        \<and> permissions (exports s ! i) = L1 \<and> client_list p = Some L2 \<and> mset L1 = mset L2
      \<longrightarrow> export_main A p s = (Exit_json False, s))"
proof -
  have "mset L1 = mset L2 \<Longrightarrow> set L1 = set L2" by (rule mset_eq_setD)
  then show ?thesis
    by (auto simp add: permissions_differ_iff export_main_same_set)
qed

text \<open>
  An export with the entries \<open>a, b, a\<close> and the client list \<open>a, a, b\<close>; the list
  \<open>b, a\<close> compares equal to \<open>a, b, a\<close> too.
\<close>

theorem permuted_client_list_no_update_witness:
  "mset [perm_a, perm_b, perm_a] = mset [perm_a, perm_a, perm_b]
   \<and> \<not> permissions_differ [perm_a, perm_b, perm_a] [perm_a, perm_a, perm_b]
   \<and> \<not> permissions_differ [perm_a, perm_b, perm_a] [perm_b, perm_a]
   \<and> export_main stores_as_given (export_with_list (Some [perm_a, perm_a, perm_b]))
        (system_with_export [perm_a, perm_b, perm_a])
      = (Exit_json False, system_with_export [perm_a, perm_b, perm_a])"
  using permuted_client_list_no_update [where ?L1.0 = "[perm_a, perm_b, perm_a]"
      and ?L2.0 = "[perm_a, perm_a, perm_b]"
      and p = "export_with_list (Some [perm_a, perm_a, perm_b])"
      and s = "system_with_export [perm_a, perm_b, perm_a]" and i = 0 and A = stores_as_given]
    permuted_client_list_no_update [where ?L1.0 = "[perm_a, perm_b, perm_a]"
      and ?L2.0 = "[perm_b, perm_a]"]
  by (auto simp add: export_with_list_def system_with_export_def empty_system_def get_export_def)

lemma exports_create_simps:
  "calls (snd (exports_create A path fs s)) = calls s @ [Exports_create path fs]"
  "exports (snd (exports_create A path fs s)) = exports s @
     [\<lparr>export_path = path, export_filesystem = fs, permissions = new_export_permissions A\<rparr>]"
  by (simp_all add: exports_create_def log_call_simps)

lemma export_main_create_no_list:
  assumes "state p = Present" and "filesystems s (filesystem p) \<noteq> None"
    and "\<forall>e\<in>set (exports s). export_path e \<noteq> name p" and "\<not> truthy_list (client_list p)"
  shows "export_main A p s = (Exit_json True, snd (exports_create A (name p) (filesystem p) s))"
  using assms
  by (cases "client_list p")
     (auto simp add: export_main_def export_get_filesystem_def get_export_def find_export_None
        update_export_def split: prod.splits)

text \<open>
  Claim C4, as amended. When \<^verbatim>\<open>state=present\<close> is asked for a path that no export has,
  and no \<^verbatim>\<open>client_list\<close> is given (or an empty one), the module issues the create call
  and no other, and reports \<open>changed = True\<close>. It sets no permissions: the new export has
  the permissions the array gives it.
\<close>

theorem export_created_without_client_list:
  assumes "state p = Present" and "filesystems s (filesystem p) \<noteq> None"
    and "\<forall>e\<in>set (exports s). export_path e \<noteq> name p" and "\<not> truthy_list (client_list p)"
  shows "let s' = snd (export_main A p s)
         in fst (export_main A p s) = Exit_json True
          \<and> calls s' = calls s @ [Exports_create (name p) (filesystem p)]
          \<and> exports s' = exports s @
               [\<lparr>export_path = name p, export_filesystem = filesystem p,
                 permissions = new_export_permissions A\<rparr>]"
  unfolding export_main_create_no_list [OF assms]
  by (simp add: exports_create_simps)

text \<open>On an array whose default is the entry for all hosts, the new export has that entry.\<close>

theorem export_created_without_client_list_witness:
  "fst (export_main array_as_documented (export_with_list None) system_with_filesystem) = Exit_json True
   \<and> calls (snd (export_main array_as_documented (export_with_list None) system_with_filesystem))
       = [Exports_create ''/data'' ''fs1'']
   \<and> exports (snd (export_main array_as_documented (export_with_list None) system_with_filesystem))
       = [\<lparr>export_path = ''/data'', export_filesystem = ''fs1'', permissions = [rw_all]\<rparr>]"
  using export_created_without_client_list [of "export_with_list None" system_with_filesystem
      array_as_documented]
  by (simp add: export_with_list_def system_with_filesystem_def empty_system_def
        array_as_documented_def rw_all_def Let_def)

text \<open>
  Claim C4 as the spec states it fails: on an array that gives a new export no
  permissions, the export created without a \<^verbatim>\<open>client_list\<close> does not have the entry for
  all hosts, and the only call the module has issued is the create call.
\<close>

theorem export_default_permissions_counterexample:
  "fst (export_main stores_as_given (export_with_list None) system_with_filesystem) = Exit_json True
   \<and> calls (snd (export_main stores_as_given (export_with_list None) system_with_filesystem))
       = [Exports_create ''/data'' ''fs1'']
   \<and> permissions (exports (snd (export_main stores_as_given (export_with_list None)
         system_with_filesystem)) ! 0) \<noteq> [rw_all]"
proof -
  have "export_main stores_as_given (export_with_list None) system_with_filesystem =
      (Exit_json True, snd (exports_create stores_as_given ''/data'' ''fs1'' system_with_filesystem))"
    using export_main_create_no_list [of "export_with_list None" system_with_filesystem stores_as_given]
    by (simp add: export_with_list_def system_with_filesystem_def empty_system_def)
  then show ?thesis
    by (simp add: exports_create_simps system_with_filesystem_def empty_system_def
          stores_as_given_def)
qed


subsection \<open>Export clients\<close>

lemma exports_get_Some:
  assumes "exports_get path es = Some i"
  shows "i < length es \<and> export_path (es ! i) = path"
proof -
  from assms have "filter (\<lambda>i. export_path (es ! i) = path) [0..<length es] = [i]"
    by (simp add: exports_get_def split: list.splits)
  then have "i \<in> set (filter (\<lambda>i. export_path (es ! i) = path) [0..<length es])"
    by simp
  then show ?thesis by simp
qed

lemma exports_get_system_with_export:
  "exports_get ''/data'' (exports (system_with_export cl)) = Some 0"
  by (simp add: exports_get_def system_with_export_def)

lemma update_permissions_simps:
  "calls (update_permissions i cl s) = calls s @ [Update_permissions (export_path (exports s ! i)) cl]"
  "exports (update_permissions i cl s) = (exports s)[i := (exports s ! i)\<lparr>permissions := cl\<rparr>]"
  by (simp_all add: update_permissions_def log_call_simps)

lemma update_items_result:
  "update_items c am nrs cl (changed, nil) =
     (map (\<lambda>x. if client x = c then x\<lparr>access := am, no_root_squash := nrs\<rparr> else x) cl,
      changed \<or> (\<exists>x\<in>set cl. client x = c \<and> (access x \<noteq> am \<or> no_root_squash x \<noteq> nrs)),
      nil \<and> (\<forall>x\<in>set cl. client x \<noteq> c))"
proof (induction cl arbitrary: changed nil)
  case Nil
  then show ?case by simp
next
  case (Cons item rest)
  show ?case
  proof (cases "client item = c")
    case False
    then show ?thesis by (simp add: Cons.IH)
  next
    case True
    then show ?thesis
      by (cases item) (auto simp add: Cons.IH)
  qed
qed

lemma update_client_existing:
  assumes "i < length (exports s)"
    and "e \<in> set (permissions (exports s ! i))" and "client e = client_param p"
    and "access e \<noteq> access_mode p"
  shows "update_client p i s =
     (Exit_json True,
      update_permissions i
        (map (\<lambda>x. if client x = client_param p
                  then x\<lparr>access := access_mode p, no_root_squash := no_root_squash_param p\<rparr>
                  else x)
           (permissions (exports s ! i))) s)"
proof -
  have ch: "\<exists>x\<in>set (permissions (exports s ! i)). client x = client_param p \<and>
      (access x \<noteq> access_mode p \<or> no_root_squash x \<noteq> no_root_squash_param p)"
    using assms(2-4) by blast
  have nil: "\<not> (\<forall>x\<in>set (permissions (exports s ! i)). client x \<noteq> client_param p)"
    using assms(2,3) by blast
  have loop: "update_items (client_param p) (access_mode p) (no_root_squash_param p)
      (permissions (exports s ! i)) (False, True) =
     (map (\<lambda>x. if client x = client_param p
                then x\<lparr>access := access_mode p, no_root_squash := no_root_squash_param p\<rparr>
                else x)
        (permissions (exports s ! i)), True, False)"
    unfolding update_items_result using ch nil by blast
  show ?thesis
    unfolding update_client_def Let_def loop using assms(1) by simp
qed

text \<open>
  Claim C5, as amended. \<^verbatim>\<open>state=present\<close> for a client that has an entry in the export
  with another access mode reports \<open>changed = True\<close> and replaces the permission list by
  one in which every entry of that client has the wanted access mode and the wanted
  \<^verbatim>\<open>no_root_squash\<close>, and every other entry is what it was, in the same place. When the
  entries of the client already have the wanted \<^verbatim>\<open>no_root_squash\<close>, only their access
  field changes.
\<close>

theorem client_present_rewrites_its_entries:
  assumes "exports_get (export_param p) (exports s) = Some i" and "state_param p = Present"
    and "e \<in> set (permissions (exports s ! i))" and "client e = client_param p"
    and "access e \<noteq> access_mode p"
  shows "client_main p s =
     (Exit_json True,
      update_permissions i
        (map (\<lambda>x. if client x = client_param p
                  then x\<lparr>access := access_mode p, no_root_squash := no_root_squash_param p\<rparr>
                  else x)
           (permissions (exports s ! i))) s)
   \<and> ((\<forall>x\<in>set (permissions (exports s ! i)).
          client x = client_param p \<longrightarrow> no_root_squash x = no_root_squash_param p)
      \<longrightarrow> client_main p s =
         (Exit_json True,
          update_permissions i
            (map (\<lambda>x. if client x = client_param p then x\<lparr>access := access_mode p\<rparr> else x)
               (permissions (exports s ! i))) s))"
proof -
  from exports_get_Some [OF assms(1)] have i: "i < length (exports s)" by simp
  have main: "client_main p s = update_client p i s"
    using assms(1,2) by (simp add: client_main_def)
  have both: "client_main p s =
     (Exit_json True,
      update_permissions i
        (map (\<lambda>x. if client x = client_param p
                  then x\<lparr>access := access_mode p, no_root_squash := no_root_squash_param p\<rparr>
                  else x)
           (permissions (exports s ! i))) s)"
    unfolding main by (rule update_client_existing [OF i assms(3-5)])
  have only_access: "client_main p s =
         (Exit_json True,
          update_permissions i
            (map (\<lambda>x. if client x = client_param p then x\<lparr>access := access_mode p\<rparr> else x)
               (permissions (exports s ! i))) s)"
    if agree: "\<forall>x\<in>set (permissions (exports s ! i)).
          client x = client_param p \<longrightarrow> no_root_squash x = no_root_squash_param p"
  proof -
    have "map (\<lambda>x. if client x = client_param p
                  then x\<lparr>access := access_mode p, no_root_squash := no_root_squash_param p\<rparr>
                  else x) (permissions (exports s ! i))
          = map (\<lambda>x. if client x = client_param p then x\<lparr>access := access_mode p\<rparr> else x)
               (permissions (exports s ! i))"
    proof (rule map_cong [OF refl])
      fix x
      assume x: "x \<in> set (permissions (exports s ! i))"
      show "(if client x = client_param p
             then x\<lparr>access := access_mode p, no_root_squash := no_root_squash_param p\<rparr> else x)
          = (if client x = client_param p then x\<lparr>access := access_mode p\<rparr> else x)"
      proof (cases "client x = client_param p")
        case True
        with agree x have "no_root_squash x = no_root_squash_param p" by blast
        then have "x\<lparr>no_root_squash := no_root_squash_param p\<rparr> = x" by (cases x) simp
        then have "x\<lparr>no_root_squash := no_root_squash_param p, access := access_mode p\<rparr>
            = x\<lparr>access := access_mode p\<rparr>" by simp
        with True show ?thesis by (cases x) simp
      next
        case False
        then show ?thesis by simp
      qed
    qed
    with both show ?thesis by simp
  qed
  from both only_access show ?thesis by blast
qed

lemma exports_system_with_export:
  "exports (system_with_export cl) =
     [\<lparr>export_path = ''/data'', export_filesystem = ''fs1'', permissions = cl\<rparr>]"
  by (simp add: system_with_export_def)

text \<open>
  The export has 10.0.0.2 and 10.0.0.1, the latter with \<open>RW\<close>; asking \<open>RO\<close> for 10.0.0.1
  changes that entry and leaves 10.0.0.2 alone.
\<close>

theorem client_present_rewrites_its_entries_witness:
  "client_main client_1_read_only (system_with_export [client_2, client_1 ''RW'' False]) =
     (Exit_json True,
      update_permissions 0 [client_2, client_1 ''RO'' False]
        (system_with_export [client_2, client_1 ''RW'' False]))"
proof -
  let ?s = "system_with_export [client_2, client_1 ''RW'' False]"
  have g: "exports_get (export_param client_1_read_only) (exports ?s) = Some 0"
    using exports_get_system_with_export by (simp add: client_1_read_only_def)
  have st: "state_param client_1_read_only = Present"
    by (simp add: client_1_read_only_def)
  have perms: "permissions (exports ?s ! 0) = [client_2, client_1 ''RW'' False]"
    by (simp add: exports_system_with_export)
  have e: "client_1 ''RW'' False \<in> set (permissions (exports ?s ! 0))"
    by (simp add: perms)
  have c: "client (client_1 ''RW'' False) = client_param client_1_read_only"
    by (simp add: client_1_def client_1_read_only_def)
  have a: "access (client_1 ''RW'' False) \<noteq> access_mode client_1_read_only"
    by (simp add: client_1_def client_1_read_only_def)
  have m: "map (\<lambda>x. if client x = client_param client_1_read_only
                  then x\<lparr>access := access_mode client_1_read_only,
                         no_root_squash := no_root_squash_param client_1_read_only\<rparr>
                  else x) [client_2, client_1 ''RW'' False] = [client_2, client_1 ''RO'' False]"
    by (simp add: client_1_def client_2_def client_1_read_only_def)
  from client_present_rewrites_its_entries [OF g st e c a] show ?thesis
    unfolding perms m by blast
qed

lemma update_permissions_system_with_export:
  "permissions (exports (update_permissions 0 cl' (system_with_export cl)) ! 0) = cl'"
  by (simp add: update_permissions_simps exports_system_with_export)

text \<open>
  Claim C5 as the spec states it fails: when the entry of 10.0.0.1 has \<open>RW\<close> and
  \<^verbatim>\<open>no_root_squash\<close> set, asking for \<open>RO\<close> (with \<^verbatim>\<open>no_root_squash\<close> at its default)
  changes the access field and clears \<^verbatim>\<open>no_root_squash\<close> as well.
\<close>

theorem client_present_changes_root_squash_counterexample:
  "fst (client_main client_1_read_only (system_with_export [client_1 ''RW'' True, client_2]))
     = Exit_json True
   \<and> permissions (exports (snd (client_main client_1_read_only
         (system_with_export [client_1 ''RW'' True, client_2]))) ! 0)
     = [client_1 ''RO'' False, client_2]
   \<and> client_1 ''RO'' False \<noteq> (client_1 ''RW'' True)\<lparr>access := ''RO''\<rparr>"
proof -
  let ?s = "system_with_export [client_1 ''RW'' True, client_2]"
  have g: "exports_get (export_param client_1_read_only) (exports ?s) = Some 0"
    using exports_get_system_with_export by (simp add: client_1_read_only_def)
  have main: "client_main client_1_read_only ?s = update_client client_1_read_only 0 ?s"
    by (simp add: client_main_def g) (simp add: client_1_read_only_def)
  have perms: "permissions (exports ?s ! 0) = [client_1 ''RW'' True, client_2]"
    by (simp add: exports_system_with_export)
  have e: "client_1 ''RW'' True \<in> set (permissions (exports ?s ! 0))"
    by (simp add: perms)
  have c: "client (client_1 ''RW'' True) = client_param client_1_read_only"
    by (simp add: client_1_def client_1_read_only_def)
  have a: "access (client_1 ''RW'' True) \<noteq> access_mode client_1_read_only"
    by (simp add: client_1_def client_1_read_only_def)
  have i: "0 < length (exports ?s)"
    by (simp add: exports_system_with_export)
  have m: "map (\<lambda>x. if client x = client_param client_1_read_only
                  then x\<lparr>access := access_mode client_1_read_only,
                         no_root_squash := no_root_squash_param client_1_read_only\<rparr>
                  else x) [client_1 ''RW'' True, client_2] = [client_1 ''RO'' False, client_2]"
    by (simp add: client_1_def client_2_def client_1_read_only_def)
  have run: "client_main client_1_read_only ?s =
      (Exit_json True, update_permissions 0 [client_1 ''RO'' False, client_2] ?s)"
    unfolding main using update_client_existing [OF i e c a] unfolding perms m .
  have differ: "client_1 ''RO'' False \<noteq> (client_1 ''RW'' True)\<lparr>access := ''RO''\<rparr>"
    by (simp add: client_1_def)
  show ?thesis
    unfolding run fst_conv snd_conv update_permissions_system_with_export
    using differ by simp
qed

text \<open>
  Claim C3 at an export where two entries of the client follow one another:
  \<^verbatim>\<open>state=absent\<close> for 10.0.0.1 reports \<open>changed = True\<close> and sends a permission list
  that still has an entry of 10.0.0.1. The loop deletes the first entry, the second
  moves into its place, and the iterator steps over it.
\<close>

theorem delete_client_leaves_adjacent_entry:
  "client_main client_1_absent (system_with_export [client_1 ''RW'' False, client_1 ''RO'' False, client_2])
     = (Exit_json True,
        update_permissions 0 [client_1 ''RO'' False, client_2]
          (system_with_export [client_1 ''RW'' False, client_1 ''RO'' False, client_2]))
   \<and> client (client_1 ''RO'' False) = client_param client_1_absent"
proof -
  let ?s = "system_with_export [client_1 ''RW'' False, client_1 ''RO'' False, client_2]"
  have loop: "delete_items ''10.0.0.1'' 0 [client_1 ''RW'' False, client_1 ''RO'' False, client_2] False
      = ([client_1 ''RO'' False, client_2], True)"
    by (simp add: del_index_def client_1_def client_2_def)
  have g: "exports_get (export_param client_1_absent) (exports ?s) = Some 0"
    using exports_get_system_with_export by (simp add: client_1_absent_def)
  have main: "client_main client_1_absent ?s = delete_client client_1_absent 0 ?s"
    by (simp add: client_main_def g) (simp add: client_1_absent_def)
  have perms: "permissions (exports ?s ! 0) = [client_1 ''RW'' False, client_1 ''RO'' False, client_2]"
    by (simp add: exports_system_with_export)
  have i: "0 < length (exports ?s)"
    by (simp add: exports_system_with_export)
  have key: "client_param client_1_absent = ''10.0.0.1''"
    by (simp add: client_1_absent_def)
  have run: "delete_client client_1_absent 0 ?s =
      (Exit_json True, update_permissions 0 [client_1 ''RO'' False, client_2] ?s)"
    unfolding delete_client_def perms key loop using i by simp
  show ?thesis
    unfolding main run by (simp add: client_1_def key)
qed

end
